theory Spec2Isabelle
  imports Main
begin

section \<open>Strings and JavaScript values\<close>

text \<open>
  The page script \<^verbatim>\<open>index.tsx\<close> wires two event handlers around one call to a remote
  generation service. Strings are modelled as \<^typ>\<open>string\<close>; the Turkish user-facing
  messages of the source are written as their UTF-8 bytes. A value that may be
  \<^verbatim>\<open>undefined\<close> or \<^verbatim>\<open>null\<close> is an \<^typ>\<open>'a option\<close>.
\<close>

definition no_file_message :: string where
  "no_file_message = ''L'' @ [CHR 0xC3, CHR 0xBC] @ ''tfen '' @ [CHR 0xC3, CHR 0xB6]
     @ ''nce bir resim dosyas'' @ [CHR 0xC4, CHR 0xB1] @ '' se'' @ [CHR 0xC3, CHR 0xA7]
     @ ''in.''"

definition generated_alt :: string where
  "generated_alt = ''Yapay zeka taraf'' @ [CHR 0xC4, CHR 0xB1] @ ''ndan olu''
     @ [CHR 0xC5, CHR 0x9F] @ ''turulan tarihi an'' @ [CHR 0xC4, CHR 0xB1]"

definition defaultError :: string where
  "defaultError = ''Yan'' @ [CHR 0xC4, CHR 0xB1] @ ''t bir resim i'' @ [CHR 0xC3, CHR 0xA7]
     @ ''ermiyor. Modelin g'' @ [CHR 0xC3, CHR 0xBC] @ ''venlik filtreleri taraf''
     @ [CHR 0xC4, CHR 0xB1] @ ''ndan engellenmi'' @ [CHR 0xC5, CHR 0x9F] @ '' olabilir.''"

definition unknown_error_message :: string where
  "unknown_error_message = ''Bilinmeyen bir hata olu'' @ [CHR 0xC5, CHR 0x9F] @ ''tu.''"

definition prompt_text :: string where
  "prompt_text = ''Bu foto'' @ [CHR 0xC4, CHR 0x9F] @ ''raftaki ki'' @ [CHR 0xC5, CHR 0x9F]
     @ ''iyi analiz et. Ki'' @ [CHR 0xC5, CHR 0x9F] @ ''inin y'' @ [CHR 0xC3, CHR 0xBC] @ ''z''
     @ [CHR 0xC3, CHR 0xBC] @ ''n'' @ [CHR 0xC3, CHR 0xBC] @ '' ve kimli''
     @ [CHR 0xC4, CHR 0x9F] @ ''ini koruyarak, giyimini ve i'' @ [CHR 0xC3, CHR 0xA7]
     @ ''inde bulundu'' @ [CHR 0xC4, CHR 0x9F] @ ''u ortam'' @ [CHR 0xC4, CHR 0xB1] @ '' Atat''
     @ [CHR 0xC3, CHR 0xBC] @ ''rk'' @ [CHR 0x27, CHR 0xC3, CHR 0xBC] @ ''n ya''
     @ [CHR 0xC5, CHR 0x9F] @ ''ad''
     @ [CHR 0xC4, CHR 0xB1, CHR 0xC4, CHR 0x9F, CHR 0xC4, CHR 0xB1] @ '' d''
     @ [CHR 0xC3, CHR 0xB6] @ ''neme (1920'' @ [CHR 0x27] @ ''ler-1930'' @ [CHR 0x27]
     @ ''lar T'' @ [CHR 0xC3, CHR 0xBC] @ ''rkiye'' @ [CHR 0x27] @ ''si) uygun ''
     @ [CHR 0xC5, CHR 0x9F] @ ''ekilde tamamen de'' @ [CHR 0xC4, CHR 0x9F] @ ''i''
     @ [CHR 0xC5, CHR 0x9F] @ ''tir. Ard'' @ [CHR 0xC4, CHR 0xB1]
     @ ''ndan, Mustafa Kemal Atat'' @ [CHR 0xC3, CHR 0xBC] @ ''rk''
     @ [CHR 0x27, CHR 0xC3, CHR 0xBC] @ '' bu yeni ortama, foto'' @ [CHR 0xC4, CHR 0x9F]
     @ ''raftaki ki'' @ [CHR 0xC5, CHR 0x9F] @ ''iyle do'' @ [CHR 0xC4, CHR 0x9F] @ ''al bir ''
     @ [CHR 0xC5, CHR 0x9F] @ ''ekilde yan yana duruyormu'' @ [CHR 0xC5, CHR 0x9F]
     @ '' gibi ekle. Son olarak, foto'' @ [CHR 0xC4, CHR 0x9F] @ ''raf'' @ [CHR 0xC4, CHR 0xB1]
     @ ''n tamam'' @ [CHR 0xC4, CHR 0xB1] @ ''n'' @ [CHR 0xC4, CHR 0xB1] @ '' o d''
     @ [CHR 0xC3, CHR 0xB6] @ ''neme ait otantik, sepya tonlu veya siyah-beyaz, grenli ve d''
     @ [CHR 0xC3, CHR 0xB6] @ ''nemin ''
     @ [CHR 0xC4, CHR 0xB1, CHR 0xC5, CHR 0x9F, CHR 0xC4, CHR 0xB1] @ ''kland''
     @ [CHR 0xC4, CHR 0xB1] @ ''rma '' @ [CHR 0xC3, CHR 0xB6] @ ''zelliklerini ta''
     @ [CHR 0xC5, CHR 0x9F, CHR 0xC4, CHR 0xB1] @ ''yan eski bir foto'' @ [CHR 0xC4, CHR 0x9F]
     @ ''raf gibi stilize et. Nihai sonu'' @ [CHR 0xC3, CHR 0xA7] @ '', o y''
     @ [CHR 0xC4, CHR 0xB1] @ ''llarda '' @ [CHR 0xC3, CHR 0xA7] @ ''ekilmi''
     @ [CHR 0xC5, CHR 0x9F] @ '' ger'' @ [CHR 0xC3, CHR 0xA7] @ ''ek bir tarihi an''
     @ [CHR 0xC4, CHR 0xB1] @ '' gibi g'' @ [CHR 0xC3, CHR 0xB6] @ ''r'' @ [CHR 0xC3, CHR 0xBC]
     @ ''nmeli.''"

text \<open>
  Truthiness of an optional string, as \<^verbatim>\<open>part.text\<close> in a predicate or the left
  operand of \<^verbatim>\<open>||\<close>: \<^verbatim>\<open>undefined\<close> and the empty string are falsy.
\<close>

fun truthy :: "string option \<Rightarrow> bool" where
  "truthy None = False"
| "truthy (Some s) = (s \<noteq> [])"

text \<open>\<^verbatim>\<open>a || b\<close> on strings.\<close>

fun js_or :: "string option \<Rightarrow> string \<Rightarrow> string" where
  "js_or None d = d"
| "js_or (Some s) d = (if s = [] then d else s)"

text \<open>
  \<^verbatim>\<open>s.split(',')\<close>: the pieces between the separators; a string without a
  separator is the only piece, and the empty string gives one empty piece.
\<close>

fun split_on :: "char \<Rightarrow> string \<Rightarrow> string list" where
  "split_on c [] = [[]]"
| "split_on c (x # xs) =
     (if x = c then [] # split_on c xs
      else (case split_on c xs of
              [] \<Rightarrow> [[x]]
            | p # ps \<Rightarrow> (x # p) # ps))"

text \<open>\<^verbatim>\<open>xs[i]\<close> on an array: \<^verbatim>\<open>undefined\<close> out of range.\<close>

fun index_opt :: "'a list \<Rightarrow> nat \<Rightarrow> 'a option" where
  "index_opt [] n = None"
| "index_opt (x # xs) 0 = Some x"
| "index_opt (x # xs) (Suc n) = index_opt xs n"

text \<open>
  What a handler can catch: an \<^verbatim>\<open>Error\<close> object with its message, or the progress
  event the file reader passes to \<^verbatim>\<open>onerror\<close> (tagged with the name of the reader's
  error), which has no \<^verbatim>\<open>message\<close> property.
\<close>

datatype thrown = ErrorObject string | ReaderErrorEvent string

fun message_of :: "thrown \<Rightarrow> string option" where
  "message_of (ErrorObject m) = Some m"
| "message_of (ReaderErrorEvent n) = None"

section \<open>Files and the encoder\<close>

record file_t =
  file_type :: string
  file_bytes :: "nat list"

text \<open>
  The outcome of \<^verbatim>\<open>reader.readAsDataURL(file)\<close>, supplied by the platform: the load
  event with \<^verbatim>\<open>reader.result\<close>, or the error event.
\<close>

datatype read_outcome = ReadLoaded string | ReadErrored thrown

text \<open>
  \<^verbatim>\<open>fileToBase64\<close>: the promise resolves (\<open>Inr\<close>) with
  \<^verbatim>\<open>reader.result.split(',')[1]\<close> or rejects (\<open>Inl\<close>) with the value given to
  \<^verbatim>\<open>onerror\<close>.
\<close>

fun fileToBase64 :: "read_outcome \<Rightarrow> thrown + string option" where
  "fileToBase64 (ReadLoaded result) = Inr (index_opt (split_on (CHR '','') result) 1)"
| "fileToBase64 (ReadErrored error) = Inl error"



section \<open>The service's request and response\<close>

text \<open>
  The types of the client library are not part of the source; the fields the script
  reads are modelled: a part may carry inline data (media type and base64 data) and may
  carry text.
\<close>

record blob =
  blob_data :: string
  mimeType :: string

record part =
  inlineData :: "blob option"
  part_text :: "string option"

record content =
  parts :: "part list option"

record candidate =
  cand_content :: "content option"

record response =
  candidates :: "candidate list option"

datatype modality = IMAGE | TEXT

record request =
  req_model :: string
  req_data :: "string option"
  req_mimeType :: string
  req_text :: string
  req_responseModalities :: "modality list"

text \<open>The outcome of \<^verbatim>\<open>ai.models.generateContent\<close>: a response or a rejection.\<close>

datatype api_outcome = ApiResolved response | ApiRejected thrown

text \<open>\<^verbatim>\<open>response.candidates?.[0]?.content?.parts || []\<close>\<close>

definition response_parts :: "response \<Rightarrow> part list" where
  "response_parts r =
     (case candidates r of
        None \<Rightarrow> []
      | Some cs \<Rightarrow>
          (case index_opt cs 0 of
             None \<Rightarrow> []
           | Some c \<Rightarrow>
               (case cand_content c of
                  None \<Rightarrow> []
                | Some ct \<Rightarrow> (case parts ct of None \<Rightarrow> [] | Some ps \<Rightarrow> ps))))"

section \<open>The page\<close>

text \<open>
  An image element's source is an object URL handed out by the platform (numbered
  here) or a literal string. The only \<^verbatim>\<open>onload\<close> handler of the script revokes the
  element's own source.
\<close>

datatype img_src = ObjectUrl nat | Literal string

datatype handler = RevokeOwnSrc

record img_el =
  src :: img_src
  alt :: string
  onload :: "handler option"

text \<open>
  A child of a region: an image, a paragraph (class name and text), or any other
  element (such as the loader), taken to hold no image or paragraph of its own, so that
  the selector \<^verbatim>\<open>'img, p'\<close> matches neither it nor anything inside it. The page's
  markup is not part of the source; the regions' first contents are left open.
\<close>

datatype node = ImgNode img_el | PNode string string | OtherNode

datatype phase = Idle | AwaitRead | AwaitResponse

text \<open>
  The six elements looked up at start are \<open>None\<close> when \<^verbatim>\<open>getElementById\<close> finds
  nothing. Of an input or button only the \<^verbatim>\<open>disabled\<close> flag is kept, of the loader
  the \<^verbatim>\<open>hidden\<close> flag, of the message area its text, of the two regions their
  children. \<open>phase\<close> is the point where the submission handler is suspended.
\<close>

record page =
  selectedFile :: "file_t option"
  imageUpload :: "bool option"
  submitBtn :: "bool option"
  originalImagePreview :: "node list option"
  generatedImageContainer :: "node list option"
  loader :: "bool option"
  errorMessage :: "string option"
  console :: "string list"
  object_urls :: "(nat \<times> file_t) list"
  next_url :: nat
  requests :: "request list"
  phase :: phase

section \<open>Helpers of the script\<close>

text \<open>\<^verbatim>\<open>displayError\<close>: sets the message area's text when the area exists, and logs.\<close>

definition displayError :: "string \<Rightarrow> page \<Rightarrow> page" where
  "displayError message s =
     (let s1 = (case errorMessage s of
                  None \<Rightarrow> s
                | Some _ \<Rightarrow> s\<lparr>errorMessage := Some message\<rparr>)
      in s1\<lparr>console := console s1 @ [message]\<rparr>)"

text \<open>\<^verbatim>\<open>setLoading\<close>: each of the three elements is written only when it exists.\<close>

definition setLoading :: "bool \<Rightarrow> page \<Rightarrow> page" where
  "setLoading isLoading s =
     (let s1 = (case loader s of
                  None \<Rightarrow> s
                | Some _ \<Rightarrow> s\<lparr>loader := Some (\<not> isLoading)\<rparr>);
          s2 = (case submitBtn s1 of
                  None \<Rightarrow> s1
                | Some _ \<Rightarrow> s1\<lparr>submitBtn := Some isLoading\<rparr>)
      in (case imageUpload s2 of
            None \<Rightarrow> s2
          | Some _ \<Rightarrow> s2\<lparr>imageUpload := Some isLoading\<rparr>))"

text \<open>Whether \<^verbatim>\<open>querySelector('img, p')\<close> matches a node.\<close>

fun is_result :: "node \<Rightarrow> bool" where
  "is_result (ImgNode _) = True"
| "is_result (PNode _ _) = True"
| "is_result OtherNode = False"

text \<open>
  \<^verbatim>\<open>querySelector('img, p')\<close> followed by \<^verbatim>\<open>remove()\<close> when something was found:
  the first matching child leaves the list.
\<close>

fun remove_first_result :: "node list \<Rightarrow> node list" where
  "remove_first_result [] = []"
| "remove_first_result (n # ns) =
     (if is_result n then ns else n # remove_first_result ns)"

definition clear_existing_result :: "page \<Rightarrow> page" where
  "clear_existing_result s =
     (case generatedImageContainer s of
        None \<Rightarrow> s
      | Some ns \<Rightarrow> s\<lparr>generatedImageContainer := Some (remove_first_result ns)\<rparr>)"

text \<open>The images and paragraphs the result area holds.\<close>

definition results :: "page \<Rightarrow> node list" where
  "results s =
     (case generatedImageContainer s of
        None \<Rightarrow> []
      | Some ns \<Rightarrow> filter is_result ns)"

text \<open>
  \<^verbatim>\<open>URL.createObjectURL\<close> registers the file under a new URL;
  \<^verbatim>\<open>URL.revokeObjectURL\<close> drops the registration and ignores any other string.
\<close>

definition createObjectURL :: "file_t \<Rightarrow> page \<Rightarrow> nat \<times> page" where
  "createObjectURL f s =
     (next_url s, s\<lparr>object_urls := (next_url s, f) # object_urls s,
                      next_url := Suc (next_url s)\<rparr>)"

fun revokeObjectURL :: "img_src \<Rightarrow> page \<Rightarrow> page" where
  "revokeObjectURL (ObjectUrl u) s =
     s\<lparr>object_urls := filter (\<lambda>kv. fst kv \<noteq> u) (object_urls s)\<rparr>"
| "revokeObjectURL (Literal _) s = s"

definition live_urls :: "page \<Rightarrow> nat set" where
  "live_urls s = fst ` set (object_urls s)"

text \<open>The \<^verbatim>\<open>load\<close> event of an image element runs its \<^verbatim>\<open>onload\<close> handler.\<close>

definition img_load :: "img_el \<Rightarrow> page \<Rightarrow> page" where
  "img_load el s =
     (case onload el of
        None \<Rightarrow> s
      | Some RevokeOwnSrc \<Rightarrow> revokeObjectURL (src el) s)"

section \<open>The selection handler\<close>

text \<open>
  The \<^verbatim>\<open>change\<close> listener of the file input, given \<^verbatim>\<open>imageUpload.files\<close>. With
  no first file nothing runs.
\<close>

definition image_change :: "file_t list \<Rightarrow> page \<Rightarrow> page" where
  "image_change files s =
     (case files of
        [] \<Rightarrow> s
      | f # _ \<Rightarrow>
          (let s1 = s\<lparr>selectedFile := Some f\<rparr>;
               s2 = (case originalImagePreview s1 of
                       None \<Rightarrow> s1
                     | Some _ \<Rightarrow>
                         (let (u, s') = createObjectURL f s1
                          in s'\<lparr>originalImagePreview :=
                                  Some [ImgNode \<lparr>src = ObjectUrl u, alt = [],
                                                  onload = Some RevokeOwnSrc\<rparr>]\<rparr>));
               s3 = (case submitBtn s2 of
                       None \<Rightarrow> s2
                     | Some _ \<Rightarrow> s2\<lparr>submitBtn := Some False\<rparr>);
               s4 = clear_existing_result s3
           in displayError [] s4))"

section \<open>The submission handler\<close>

text \<open>
  The \<^verbatim>\<open>catch\<close> block: one paragraph with the error's message, or the fallback text
  when the caught value has no (or an empty) message.
\<close>

definition catch_block :: "thrown \<Rightarrow> page \<Rightarrow> page" where
  "catch_block error s =
     (let specificError = js_or (message_of error) unknown_error_message
      in (case generatedImageContainer s of
            None \<Rightarrow> s
          | Some ns \<Rightarrow>
              s\<lparr>generatedImageContainer :=
                   Some (ns @ [PNode ''error-in-box'' specificError])\<rparr>))"

text \<open>The \<^verbatim>\<open>finally\<close> block, after which the handler has returned.\<close>

definition finally_block :: "page \<Rightarrow> page" where
  "finally_block s = (setLoading False s)\<lparr>phase := Idle\<rparr>"

text \<open>
  The \<^verbatim>\<open>click\<close> listener up to its first \<^verbatim>\<open>await\<close>: the guard, the clearing of
  the result area, the loading state, and the start of the read.
\<close>

definition submit_click :: "page \<Rightarrow> page" where
  "submit_click s =
     (case selectedFile s of
        None \<Rightarrow> displayError no_file_message s
      | Some _ \<Rightarrow>
          (let s1 = clear_existing_result s;
               s2 = setLoading True s1;
               s3 = displayError [] s2
           in s3\<lparr>phase := AwaitRead\<rparr>))"

text \<open>
  The handler resumes when \<^verbatim>\<open>fileToBase64\<close> settles. A rejection goes to
  \<^verbatim>\<open>catch\<close>. Otherwise the request is built, reading \<^verbatim>\<open>selectedFile.type\<close> from
  the variable as it is now (a \<^verbatim>\<open>TypeError\<close> if it were \<^verbatim>\<open>null\<close>), and sent.
\<close>

definition null_type_error :: thrown where
  "null_type_error = ErrorObject (''Cannot read properties of null (reading '' @ [CHR 0x27]
     @ ''type'' @ [CHR 0x27] @ '')'')"

definition read_settled :: "read_outcome \<Rightarrow> page \<Rightarrow> page" where
  "read_settled outcome s =
     (case fileToBase64 outcome of
        Inl error \<Rightarrow> finally_block (catch_block error s)
      | Inr base64Image \<Rightarrow>
          (case selectedFile s of
             None \<Rightarrow> finally_block (catch_block null_type_error s)
           | Some f \<Rightarrow>
               s\<lparr>requests := requests s @
                     [\<lparr>req_model = ''gemini-2.5-flash-image-preview'',
                       req_data = base64Image,
                       req_mimeType = file_type f,
                       req_text = prompt_text,
                       req_responseModalities = [IMAGE, TEXT]\<rparr>],
                  phase := AwaitResponse\<rparr>))"

text \<open>
  The handler resumes when the service call settles. The first part with inline data
  is shown; without one the first part with truthy text, or the default text, becomes
  the message of a thrown error.
\<close>

definition response_settled :: "api_outcome \<Rightarrow> page \<Rightarrow> page" where
  "response_settled outcome s =
     (case outcome of
        ApiRejected error \<Rightarrow> finally_block (catch_block error s)
      | ApiResolved response \<Rightarrow>
          (let ps = response_parts response;
               imagePart = find (\<lambda>p. inlineData p \<noteq> None) ps;
               textPart = find (\<lambda>p. truthy (part_text p)) ps;
               thrown_error = ErrorObject
                   (js_or (case textPart of None \<Rightarrow> None | Some p \<Rightarrow> part_text p)
                          defaultError)
           in (case imagePart of
                 None \<Rightarrow> finally_block (catch_block thrown_error s)
               | Some ip \<Rightarrow>
                   (case inlineData ip of
                      None \<Rightarrow> finally_block (catch_block thrown_error s)
                    | Some d \<Rightarrow>
                        finally_block
                          (case generatedImageContainer s of
                             None \<Rightarrow> s
                           | Some ns \<Rightarrow>
                               s\<lparr>generatedImageContainer :=
                                    Some (ns @ [ImgNode
                                      \<lparr>src = Literal (''data:'' @ mimeType d @ '';base64,''
                                                        @ blob_data d),
                                       alt = generated_alt,
                                       onload = None\<rparr>])\<rparr>)))))"

text \<open>
  One whole run of the handler when nothing else happens in between: the click, then
  the read's outcome, then (if a request was sent) the service's outcome.
\<close>

definition submit_handler :: "read_outcome \<Rightarrow> api_outcome \<Rightarrow> page \<Rightarrow> page" where
  "submit_handler ro ao s =
     (let s1 = submit_click s
      in if phase s1 \<noteq> AwaitRead then s1
         else (let s2 = read_settled ro s1
               in if phase s2 \<noteq> AwaitResponse then s2
                  else response_settled ao s2))"

section \<open>Events\<close>

text \<open>
  The page reacts to user events and to the settling of what it awaits. A disabled or
  missing control delivers no user event; a continuation runs only while the handler is
  suspended at that point.
\<close>

datatype event =
    Change "file_t list"
  | Click
  | ReadSettled read_outcome
  | ResponseSettled api_outcome
  | ImgLoaded img_el

fun enabled :: "event \<Rightarrow> page \<Rightarrow> bool" where
  "enabled (Change _) s = (imageUpload s = Some False)"
| "enabled Click s = (submitBtn s = Some False)"
| "enabled (ReadSettled _) s = (phase s = AwaitRead)"
| "enabled (ResponseSettled _) s = (phase s = AwaitResponse)"
| "enabled (ImgLoaded _) s = True"

fun fire :: "event \<Rightarrow> page \<Rightarrow> page" where
  "fire (Change files) s = image_change files s"
| "fire Click s = submit_click s"
| "fire (ReadSettled ro) s = read_settled ro s"
| "fire (ResponseSettled ao) s = response_settled ao s"
| "fire (ImgLoaded el) s = img_load el s"

fun run :: "page \<Rightarrow> event list \<Rightarrow> page option" where
  "run s [] = Some s"
| "run s (e # es) = (if enabled e s then run (fire e s) es else None)"

section \<open>Example inputs\<close>

definition demo_file :: file_t where
  "demo_file = \<lparr>file_type = ''image/png'', file_bytes = [137, 80, 78, 71]\<rparr>"

text \<open>A freshly loaded page: nothing selected, the loader inside the result area.\<close>

definition demo_page :: page where
  "demo_page =
     \<lparr>selectedFile = None, imageUpload = Some False, submitBtn = Some True,
      originalImagePreview = Some [], generatedImageContainer = Some [OtherNode],
      loader = Some True, errorMessage = Some [], console = [], object_urls = [],
      next_url = 0, requests = [], phase = Idle\<rparr>"

definition response_of :: "part list \<Rightarrow> response" where
  "response_of ps = \<lparr>candidates = Some [\<lparr>cand_content = Some \<lparr>parts = Some ps\<rparr>\<rparr>]\<rparr>"

definition demo_blob :: blob where
  "demo_blob = \<lparr>blob_data = ''QUJD'', mimeType = ''image/png''\<rparr>"

definition image_response :: response where
  "image_response =
     response_of [\<lparr>inlineData = None, part_text = Some ''here it is''\<rparr>,
                  \<lparr>inlineData = Some demo_blob, part_text = None\<rparr>]"

definition text_response :: response where
  "text_response =
     response_of [\<lparr>inlineData = None, part_text = Some ''blocked by safety filters''\<rparr>]"

definition empty_text_response :: response where
  "empty_text_response = response_of [\<lparr>inlineData = None, part_text = Some []\<rparr>]"

definition demo_read :: read_outcome where
  "demo_read = ReadLoaded ''data:image/png;base64,iVBO''"

text \<open>A page that still shows the error of an earlier submission.\<close>

definition stale_page :: page where
  "stale_page =
     demo_page\<lparr>selectedFile := Some demo_file, submitBtn := Some False,
       generatedImageContainer := Some [OtherNode, PNode ''error-in-box'' defaultError],
       errorMessage := Some ''old message''\<rparr>"

text \<open>Pick a file, submit it, let the read and the service call succeed.\<close>

definition demo_events :: "event list" where
  "demo_events =
     [Change [demo_file], Click, ReadSettled demo_read,
      ResponseSettled (ApiResolved image_response)]"

section \<open>Invariants of the event loop\<close>

text \<open>
  While the submission handler is suspended, no control accepts a user event, the
  result area holds no image or paragraph, and a file is selected.
\<close>

definition suspended_inv :: "page \<Rightarrow> bool" where
  "suspended_inv s =
     (length (results s) \<le> 1 \<and>
      (phase s \<noteq> Idle \<longrightarrow>
         imageUpload s \<noteq> Some False \<and> submitBtn s \<noteq> Some False \<and> results s = []))"

text \<open>
  With the two controls and the loader on the page: while the handler is suspended the
  controls are disabled and the loader is shown.
\<close>

definition loading_inv :: "page \<Rightarrow> bool" where
  "loading_inv s =
     (imageUpload s \<noteq> None \<and> submitBtn s \<noteq> None \<and> loader s \<noteq> None \<and>
      (phase s \<noteq> Idle \<longrightarrow>
         imageUpload s = Some True \<and> submitBtn s = Some True \<and> loader s = Some False))"

section \<open>Effects of the helpers, field by field\<close>

lemma displayError_frame [simp]:
  "selectedFile (displayError m s) = selectedFile s"
  "imageUpload (displayError m s) = imageUpload s"
  "submitBtn (displayError m s) = submitBtn s"
  "originalImagePreview (displayError m s) = originalImagePreview s"
  "generatedImageContainer (displayError m s) = generatedImageContainer s"
  "loader (displayError m s) = loader s"
  "object_urls (displayError m s) = object_urls s"
  "next_url (displayError m s) = next_url s"
  "requests (displayError m s) = requests s"
  "phase (displayError m s) = phase s"
  by (simp_all add: displayError_def split: option.splits)

lemma displayError_effect [simp]:
  "errorMessage (displayError m s) = map_option (\<lambda>_. m) (errorMessage s)"
  "console (displayError m s) = console s @ [m]"
  by (simp_all add: displayError_def split: option.splits)

lemma setLoading_frame [simp]:
  "selectedFile (setLoading b s) = selectedFile s"
  "originalImagePreview (setLoading b s) = originalImagePreview s"
  "generatedImageContainer (setLoading b s) = generatedImageContainer s"
  "errorMessage (setLoading b s) = errorMessage s"
  "console (setLoading b s) = console s"
  "object_urls (setLoading b s) = object_urls s"
  "next_url (setLoading b s) = next_url s"
  "requests (setLoading b s) = requests s"
  "phase (setLoading b s) = phase s"
  by (simp_all add: setLoading_def Let_def split: option.splits)

lemma setLoading_effect [simp]:
  "loader (setLoading b s) = map_option (\<lambda>_. \<not> b) (loader s)"
  "submitBtn (setLoading b s) = map_option (\<lambda>_. b) (submitBtn s)"
  "imageUpload (setLoading b s) = map_option (\<lambda>_. b) (imageUpload s)"
  by (auto simp: setLoading_def Let_def split: option.splits)

lemma clear_existing_result_frame [simp]:
  "selectedFile (clear_existing_result s) = selectedFile s"
  "imageUpload (clear_existing_result s) = imageUpload s"
  "submitBtn (clear_existing_result s) = submitBtn s"
  "originalImagePreview (clear_existing_result s) = originalImagePreview s"
  "loader (clear_existing_result s) = loader s"
  "errorMessage (clear_existing_result s) = errorMessage s"
  "console (clear_existing_result s) = console s"
  "object_urls (clear_existing_result s) = object_urls s"
  "next_url (clear_existing_result s) = next_url s"
  "requests (clear_existing_result s) = requests s"
  "phase (clear_existing_result s) = phase s"
  by (simp_all add: clear_existing_result_def split: option.splits)

lemma clear_existing_result_effect [simp]:
  "generatedImageContainer (clear_existing_result s) =
     map_option remove_first_result (generatedImageContainer s)"
  by (simp add: clear_existing_result_def split: option.splits)

lemma catch_block_frame [simp]:
  "selectedFile (catch_block e s) = selectedFile s"
  "imageUpload (catch_block e s) = imageUpload s"
  "submitBtn (catch_block e s) = submitBtn s"
  "originalImagePreview (catch_block e s) = originalImagePreview s"
  "loader (catch_block e s) = loader s"
  "errorMessage (catch_block e s) = errorMessage s"
  "console (catch_block e s) = console s"
  "object_urls (catch_block e s) = object_urls s"
  "next_url (catch_block e s) = next_url s"
  "requests (catch_block e s) = requests s"
  "phase (catch_block e s) = phase s"
  by (simp_all add: catch_block_def Let_def split: option.splits)

lemma catch_block_effect [simp]:
  "generatedImageContainer (catch_block e s) =
     map_option (\<lambda>ns. ns @ [PNode ''error-in-box'' (js_or (message_of e) unknown_error_message)])
       (generatedImageContainer s)"
  by (simp add: catch_block_def Let_def split: option.splits)

lemma finally_block_frame [simp]:
  "selectedFile (finally_block s) = selectedFile s"
  "originalImagePreview (finally_block s) = originalImagePreview s"
  "generatedImageContainer (finally_block s) = generatedImageContainer s"
  "errorMessage (finally_block s) = errorMessage s"
  "console (finally_block s) = console s"
  "object_urls (finally_block s) = object_urls s"
  "next_url (finally_block s) = next_url s"
  "requests (finally_block s) = requests s"
  by (simp_all add: finally_block_def)

lemma finally_block_effect [simp]:
  "phase (finally_block s) = Idle"
  "loader (finally_block s) = map_option (\<lambda>_. True) (loader s)"
  "submitBtn (finally_block s) = map_option (\<lambda>_. False) (submitBtn s)"
  "imageUpload (finally_block s) = map_option (\<lambda>_. False) (imageUpload s)"
  by (simp_all add: finally_block_def)

lemma results_remove_first:
  "filter is_result (remove_first_result ns) = tl (filter is_result ns)"
  by (induction ns) auto

lemma others_remove_first:
  "filter (\<lambda>n. \<not> is_result n) (remove_first_result ns) = filter (\<lambda>n. \<not> is_result n) ns"
  by (induction ns) auto

lemma results_frame:
  "generatedImageContainer t = generatedImageContainer s \<Longrightarrow> results t = results s"
  by (simp add: results_def)

lemma results_clear [simp]: "results (clear_existing_result s) = tl (results s)"
  by (simp add: results_def results_remove_first split: option.splits)

lemma results_displayError [simp]: "results (displayError m s) = results s"
  by (simp add: results_def)

lemma results_setLoading [simp]: "results (setLoading b s) = results s"
  by (simp add: results_def)

lemma results_finally [simp]: "results (finally_block s) = results s"
  by (simp add: results_def)

lemma results_catch:
  "results (catch_block e s) =
     (case generatedImageContainer s of
        None \<Rightarrow> []
      | Some ns \<Rightarrow> results s @ [PNode ''error-in-box'' (js_or (message_of e) unknown_error_message)])"
  by (simp add: results_def split: option.splits)

lemma length_results_catch: "length (results (catch_block e s)) \<le> Suc (length (results s))"
  by (simp add: results_catch split: option.splits)





lemma selectedFile_submit_click: "selectedFile (submit_click s) = selectedFile s"
  by (simp add: submit_click_def Let_def split: option.splits)




section \<open>Effects of the handler's steps\<close>

lemma submit_click_selected:
  assumes "selectedFile s = Some f"
  shows "phase (submit_click s) = AwaitRead"
    and "generatedImageContainer (submit_click s) =
           map_option remove_first_result (generatedImageContainer s)"
    and "results (submit_click s) = tl (results s)"
    and "loader (submit_click s) = map_option (\<lambda>_. False) (loader s)"
    and "submitBtn (submit_click s) = map_option (\<lambda>_. True) (submitBtn s)"
    and "imageUpload (submit_click s) = map_option (\<lambda>_. True) (imageUpload s)"
    and "requests (submit_click s) = requests s"
    and "object_urls (submit_click s) = object_urls s"
    and "originalImagePreview (submit_click s) = originalImagePreview s"
  using assms by (simp_all add: submit_click_def Let_def results_def results_remove_first
      split: option.splits)

lemma read_settled_loaded:
  assumes "selectedFile s = Some f"
  shows "read_settled (ReadLoaded r) s =
           s\<lparr>requests := requests s @
                 [\<lparr>req_model = ''gemini-2.5-flash-image-preview'',
                   req_data = index_opt (split_on (CHR '','') r) 1,
                   req_mimeType = file_type f,
                   req_text = prompt_text,
                   req_responseModalities = [IMAGE, TEXT]\<rparr>],
              phase := AwaitResponse\<rparr>"
  using assms by (simp add: read_settled_def)

lemma read_settled_errored:
  "read_settled (ReadErrored e) s = finally_block (catch_block e s)"
  by (simp add: read_settled_def)

lemma read_settled_cases:
  "(\<exists>e. read_settled ro s = finally_block (catch_block e s))
   \<or> (\<exists>rq. read_settled ro s = s\<lparr>requests := requests s @ [rq], phase := AwaitResponse\<rparr>)"
  by (cases ro) (auto simp: read_settled_def split: option.splits)

text \<open>The message of the error thrown when the response has no image part.\<close>

lemma response_settled_rejected:
  "response_settled (ApiRejected e) s = finally_block (catch_block e s)"
  by (simp add: response_settled_def)

lemma response_settled_image:
  assumes "find (\<lambda>p. inlineData p \<noteq> None) (response_parts r) = Some ip"
      and "inlineData ip = Some d"
  shows "response_settled (ApiResolved r) s =
           finally_block
             (case generatedImageContainer s of
                None \<Rightarrow> s
              | Some ns \<Rightarrow>
                  s\<lparr>generatedImageContainer :=
                       Some (ns @ [ImgNode
                         \<lparr>src = Literal (''data:'' @ mimeType d @ '';base64,'' @ blob_data d),
                          alt = generated_alt, onload = None\<rparr>])\<rparr>)"
  using assms by (simp add: response_settled_def Let_def)

lemma response_settled_no_image:
  assumes "find (\<lambda>p. inlineData p \<noteq> None) (response_parts r) = None"
  shows "response_settled (ApiResolved r) s =
           finally_block (catch_block
             (ErrorObject (js_or (case find (\<lambda>p. truthy (part_text p)) (response_parts r) of
                                    None \<Rightarrow> None | Some p \<Rightarrow> part_text p) defaultError)) s)"
  using assms by (simp add: response_settled_def Let_def)

lemma response_settled_cases:
  "(\<exists>e. response_settled ao s = finally_block (catch_block e s))
   \<or> (\<exists>el. response_settled ao s =
         finally_block (case generatedImageContainer s of
                          None \<Rightarrow> s
                        | Some ns \<Rightarrow> s\<lparr>generatedImageContainer := Some (ns @ [ImgNode el])\<rparr>))"
proof (cases ao)
  case (ApiRejected e)
  then show ?thesis by (auto simp: response_settled_def)
next
  case (ApiResolved r)
  show ?thesis
  proof (cases "find (\<lambda>p. inlineData p \<noteq> None) (response_parts r)")
    case None
    then show ?thesis
      unfolding ApiResolved using response_settled_no_image by blast
  next
    case (Some ip)
    then obtain d where "inlineData ip = Some d"
      by (auto simp: find_Some_iff)
    with Some show ?thesis
      unfolding ApiResolved using response_settled_image by blast
  qed
qed

lemma js_or_nonempty: "d \<noteq> [] \<Longrightarrow> js_or x d \<noteq> []"
  by (cases x) auto

lemma js_or_truthy: "truthy (Some t) \<Longrightarrow> js_or (Some t) d = t"
  by simp

lemma defaultError_nonempty: "defaultError \<noteq> []"
  by (simp add: defaultError_def)

lemma submit_handler_unfold:
  assumes "selectedFile s = Some f"
  shows "submit_handler (ReadLoaded r) ao s =
           response_settled ao (read_settled (ReadLoaded r) (submit_click s))"
    and "submit_handler (ReadErrored e) ao s = finally_block (catch_block e (submit_click s))"
proof -
  have sel: "selectedFile (submit_click s) = Some f"
    using assms by (simp add: selectedFile_submit_click)
  have ph: "phase (submit_click s) = AwaitRead"
    using assms by (rule submit_click_selected)
  show "submit_handler (ReadLoaded r) ao s =
           response_settled ao (read_settled (ReadLoaded r) (submit_click s))"
    using ph by (simp add: submit_handler_def Let_def read_settled_loaded [OF sel])
  show "submit_handler (ReadErrored e) ao s = finally_block (catch_block e (submit_click s))"
    using ph by (simp add: submit_handler_def Let_def read_settled_errored)
qed

lemma phase_response_settled: "phase (response_settled ao s) = Idle"
  using response_settled_cases [of ao s] by auto

lemma phase_submit_handler:
  assumes "selectedFile s = Some f"
  shows "phase (submit_handler ro ao s) = Idle"
  by (cases ro) (simp_all add: submit_handler_unfold [OF assms] phase_response_settled)

lemma image_change_selected:
  "selectedFile (image_change (f # fs) s) = Some f"
  by (simp add: image_change_def Let_def createObjectURL_def split: option.splits)

lemma image_change_file:
  "selectedFile (image_change (f # fs) s) = Some f"
  "originalImagePreview (image_change (f # fs) s) =
     map_option (\<lambda>_. [ImgNode \<lparr>src = ObjectUrl (next_url s), alt = [],
                                  onload = Some RevokeOwnSrc\<rparr>])
       (originalImagePreview s)"
  "object_urls (image_change (f # fs) s) =
     (case originalImagePreview s of
        None \<Rightarrow> object_urls s
      | Some _ \<Rightarrow> (next_url s, f) # object_urls s)"
  "submitBtn (image_change (f # fs) s) = map_option (\<lambda>_. False) (submitBtn s)"
  "imageUpload (image_change (f # fs) s) = imageUpload s"
  "loader (image_change (f # fs) s) = loader s"
  "generatedImageContainer (image_change (f # fs) s) =
     map_option remove_first_result (generatedImageContainer s)"
  "errorMessage (image_change (f # fs) s) = map_option (\<lambda>_. []) (errorMessage s)"
  "requests (image_change (f # fs) s) = requests s"
  "phase (image_change (f # fs) s) = phase s"
  by (auto simp: image_change_def Let_def createObjectURL_def split: option.splits)

lemma results_image_change: "results (image_change (f # fs) s) = tl (results s)"
  by (simp add: results_def image_change_file results_remove_first split: option.splits)

lemma tl_short: "length xs \<le> 1 \<Longrightarrow> tl xs = []"
  by (cases xs) auto

section \<open>Preservation of the invariants\<close>

lemma img_load_frame [simp]:
  "selectedFile (img_load el s) = selectedFile s"
  "imageUpload (img_load el s) = imageUpload s"
  "submitBtn (img_load el s) = submitBtn s"
  "originalImagePreview (img_load el s) = originalImagePreview s"
  "generatedImageContainer (img_load el s) = generatedImageContainer s"
  "loader (img_load el s) = loader s"
  "errorMessage (img_load el s) = errorMessage s"
  "console (img_load el s) = console s"
  "next_url (img_load el s) = next_url s"
  "requests (img_load el s) = requests s"
  "phase (img_load el s) = phase s"
  by (cases "onload el"; cases "src el"; simp add: img_load_def split: handler.splits)+

lemma results_img_load [simp]: "results (img_load el s) = results s"
  by (simp add: results_def)

lemma read_settled_controls:
  "phase (read_settled ro s) = Idle \<and>
     imageUpload (read_settled ro s) = map_option (\<lambda>_. False) (imageUpload s) \<and>
     submitBtn (read_settled ro s) = map_option (\<lambda>_. False) (submitBtn s) \<and>
     loader (read_settled ro s) = map_option (\<lambda>_. True) (loader s) \<and>
     length (results (read_settled ro s)) \<le> Suc (length (results s))
   \<or> phase (read_settled ro s) = AwaitResponse \<and>
     imageUpload (read_settled ro s) = imageUpload s \<and>
     submitBtn (read_settled ro s) = submitBtn s \<and>
     loader (read_settled ro s) = loader s \<and>
     results (read_settled ro s) = results s"
proof -
  consider (failed) e where "read_settled ro s = finally_block (catch_block e s)"
    | (sent) rq where
        "read_settled ro s = s\<lparr>requests := requests s @ [rq], phase := AwaitResponse\<rparr>"
    using read_settled_cases [of ro s] by blast
  then show ?thesis
  proof cases
    case failed
    then show ?thesis by (simp add: length_results_catch)
  next
    case sent
    then show ?thesis by (simp add: results_def)
  qed
qed

lemma response_settled_controls:
  "phase (response_settled ao s) = Idle"
  "imageUpload (response_settled ao s) = map_option (\<lambda>_. False) (imageUpload s)"
  "submitBtn (response_settled ao s) = map_option (\<lambda>_. False) (submitBtn s)"
  "loader (response_settled ao s) = map_option (\<lambda>_. True) (loader s)"
  "length (results (response_settled ao s)) \<le> Suc (length (results s))"
proof -
  consider (failed) e where "response_settled ao s = finally_block (catch_block e s)"
    | (shown) el where
        "response_settled ao s =
           finally_block (case generatedImageContainer s of
                            None \<Rightarrow> s
                          | Some ns \<Rightarrow> s\<lparr>generatedImageContainer := Some (ns @ [ImgNode el])\<rparr>)"
    using response_settled_cases [of ao s] by blast
  then have all: "phase (response_settled ao s) = Idle
      \<and> imageUpload (response_settled ao s) = map_option (\<lambda>_. False) (imageUpload s)
      \<and> submitBtn (response_settled ao s) = map_option (\<lambda>_. False) (submitBtn s)
      \<and> loader (response_settled ao s) = map_option (\<lambda>_. True) (loader s)
      \<and> length (results (response_settled ao s)) \<le> Suc (length (results s))"
  proof cases
    case failed
    then show ?thesis by (simp add: length_results_catch)
  next
    case shown
    then show ?thesis by (simp add: results_def split: option.splits)
  qed
  show "phase (response_settled ao s) = Idle"
    and "imageUpload (response_settled ao s) = map_option (\<lambda>_. False) (imageUpload s)"
    and "submitBtn (response_settled ao s) = map_option (\<lambda>_. False) (submitBtn s)"
    and "loader (response_settled ao s) = map_option (\<lambda>_. True) (loader s)"
    and "length (results (response_settled ao s)) \<le> Suc (length (results s))"
    using all by simp_all
qed

lemma suspended_inv_fire:
  assumes inv: "suspended_inv s" and en: "enabled e s"
  shows "suspended_inv (fire e s)"
proof (cases e)
  case (Change fs)
  with inv en have idle: "phase s = Idle"
    by (auto simp: suspended_inv_def)
  show ?thesis
  proof (cases fs)
    case Nil
    with Change inv show ?thesis by (simp add: image_change_def)
  next
    case (Cons f fs')
    with Change inv idle show ?thesis
      by (simp add: suspended_inv_def results_image_change image_change_file)
  qed
next
  case Click
  with inv en have idle: "phase s = Idle"
    by (auto simp: suspended_inv_def)
  show ?thesis
  proof (cases "selectedFile s")
    case None
    with Click inv show ?thesis
      by (simp add: suspended_inv_def submit_click_def)
  next
    case (Some f)
    have "tl (results s) = []"
      using inv by (simp add: suspended_inv_def tl_short)
    with Click en show ?thesis
      by (simp add: suspended_inv_def submit_click_selected [OF Some])
  qed
next
  case (ReadSettled ro)
  with inv en have "results s = []" "imageUpload s \<noteq> Some False" "submitBtn s \<noteq> Some False"
    by (auto simp: suspended_inv_def)
  with ReadSettled show ?thesis
    using read_settled_controls [of ro s] by (auto simp: suspended_inv_def)
next
  case (ResponseSettled ao)
  with inv en have "results s = []"
    by (auto simp: suspended_inv_def)
  with ResponseSettled show ?thesis
    using response_settled_controls [of ao s] by (simp add: suspended_inv_def)
next
  case (ImgLoaded el)
  with inv show ?thesis by (simp add: suspended_inv_def)
qed

lemma suspended_inv_run:
  "suspended_inv s \<Longrightarrow> run s evs = Some t \<Longrightarrow> suspended_inv t"
proof (induction evs arbitrary: s)
  case Nil
  then show ?case by simp
next
  case (Cons e evs)
  from Cons.prems(2) have en: "enabled e s" and rest: "run (fire e s) evs = Some t"
    by (auto split: if_splits)
  show ?case
    by (rule Cons.IH [OF suspended_inv_fire [OF Cons.prems(1) en] rest])
qed

lemma loading_inv_fire:
  assumes inv: "loading_inv s" and en: "enabled e s"
  shows "loading_inv (fire e s)"
proof (cases e)
  case (Change fs)
  with inv en have idle: "phase s = Idle"
    by (auto simp: loading_inv_def)
  show ?thesis
  proof (cases fs)
    case Nil
    with Change inv show ?thesis by (simp add: image_change_def)
  next
    case (Cons f fs')
    with Change inv idle show ?thesis
      by (auto simp: loading_inv_def image_change_file)
  qed
next
  case Click
  show ?thesis
  proof (cases "selectedFile s")
    case None
    with Click inv show ?thesis
      by (simp add: loading_inv_def submit_click_def)
  next
    case (Some f)
    with Click inv show ?thesis
      by (auto simp: loading_inv_def submit_click_selected [OF Some])
  qed
next
  case (ReadSettled ro)
  with inv en show ?thesis
    using read_settled_controls [of ro s] by (auto simp: loading_inv_def)
next
  case (ResponseSettled ao)
  with inv show ?thesis
    by (auto simp: loading_inv_def response_settled_controls)
next
  case (ImgLoaded el)
  with inv show ?thesis by (simp add: loading_inv_def)
qed

lemma loading_inv_run:
  "loading_inv s \<Longrightarrow> run s evs = Some t \<Longrightarrow> loading_inv t"
proof (induction evs arbitrary: s)
  case Nil
  then show ?case by simp
next
  case (Cons e evs)
  from Cons.prems(2) have en: "enabled e s" and rest: "run (fire e s) evs = Some t"
    by (auto split: if_splits)
  show ?case
    by (rule Cons.IH [OF loading_inv_fire [OF Cons.prems(1) en] rest])
qed

text \<open>Only the settling of what the handler awaits ends a suspension, through \<^verbatim>\<open>finally\<close>.\<close>

lemma suspension_ends:
  assumes inv: "loading_inv s" and busy: "phase s \<noteq> Idle" and en: "enabled e s"
      and ended: "phase (fire e s) = Idle"
  shows "((\<exists>ro. e = ReadSettled ro) \<or> (\<exists>ao. e = ResponseSettled ao))
         \<and> imageUpload (fire e s) = Some False \<and> submitBtn (fire e s) = Some False
         \<and> loader (fire e s) = Some True"
proof (cases e)
  case (Change fs)
  with inv busy en show ?thesis by (auto simp: loading_inv_def)
next
  case Click
  with inv busy en show ?thesis by (auto simp: loading_inv_def)
next
  case (ReadSettled ro)
  with inv ended show ?thesis
    using read_settled_controls [of ro s] by (auto simp: loading_inv_def)
next
  case (ResponseSettled ao)
  with inv show ?thesis
    by (auto simp: loading_inv_def response_settled_controls)
next
  case (ImgLoaded el)
  with busy ended show ?thesis by simp
qed

lemma submit_handler_controls:
  assumes "selectedFile s = Some f"
  shows "phase (submit_handler ro ao s) = Idle"
    and "imageUpload (submit_handler ro ao s) = map_option (\<lambda>_. False) (imageUpload s)"
    and "submitBtn (submit_handler ro ao s) = map_option (\<lambda>_. False) (submitBtn s)"
    and "loader (submit_handler ro ao s) = map_option (\<lambda>_. True) (loader s)"
proof -
  have sel1: "selectedFile (submit_click s) = Some f"
    using assms by (simp add: selectedFile_submit_click)
  note facts = submit_handler_unfold [OF assms] response_settled_controls
    read_settled_loaded [OF sel1] submit_click_selected [OF assms] option.map_comp comp_def
  show "phase (submit_handler ro ao s) = Idle"
    by (rule phase_submit_handler [OF assms])
  show "imageUpload (submit_handler ro ao s) = map_option (\<lambda>_. False) (imageUpload s)"
    by (cases ro) (simp_all add: facts)
  show "submitBtn (submit_handler ro ao s) = map_option (\<lambda>_. False) (submitBtn s)"
    by (cases ro) (simp_all add: facts)
  show "loader (submit_handler ro ao s) = map_option (\<lambda>_. True) (loader s)"
    by (cases ro) (simp_all add: facts)
qed

lemma single_result:
  assumes "length (results s) \<le> 1"
  shows "results s = [] \<or> (\<exists>el. results s = [ImgNode el]) \<or> (\<exists>c m. results s = [PNode c m])"
proof (cases "results s")
  case Nil
  then show ?thesis by simp
next
  case (Cons n ns)
  with assms have ns: "ns = []" by simp
  have "n \<in> set (results s)" using Cons by simp
  then have "is_result n"
    by (auto simp: results_def split: option.splits)
  with Cons ns show ?thesis by (cases n) auto
qed

section \<open>Facts about the example inputs\<close>

lemma demo_selected:
  "selectedFile (image_change [demo_file] demo_page) = Some demo_file"
  "generatedImageContainer (image_change [demo_file] demo_page) = Some [OtherNode]"
  "results (image_change [demo_file] demo_page) = []"
  by (simp_all add: image_change_file results_def demo_page_def)

lemma demo_parts:
  "response_parts (response_of ps) = ps"
  by (simp add: response_parts_def response_of_def)

lemma demo_run:
  "run demo_page demo_events =
     Some (submit_handler demo_read (ApiResolved image_response)
             (image_change [demo_file] demo_page))"
proof -
  let ?s1 = "image_change [demo_file] demo_page"
  have sel1: "selectedFile (submit_click ?s1) = Some demo_file"
    by (simp add: selectedFile_submit_click demo_selected)
  have e1: "enabled (Change [demo_file]) demo_page"
    by (simp add: demo_page_def)
  have e2: "enabled Click ?s1"
    by (simp add: image_change_file demo_page_def)
  have e3: "enabled (ReadSettled demo_read) (submit_click ?s1)"
    by (simp add: submit_click_selected [OF demo_selected(1)])
  have e4: "enabled (ResponseSettled (ApiResolved image_response))
              (read_settled demo_read (submit_click ?s1))"
    by (simp add: demo_read_def read_settled_loaded [OF sel1])
  show ?thesis
    using e1 e2 e3 e4
    by (simp add: demo_events_def submit_handler_unfold [OF demo_selected(1)] demo_read_def)
qed

section \<open>Properties of the encoder\<close>




section \<open>Properties of the selection handler\<close>

text \<open>
  Claim C10. A change event whose file list is empty leaves the whole page as it was:
  the selection, the preview, the result area, the message area and the submit button.
\<close>

theorem image_change_no_file: "image_change [] s = s"
  by (simp add: image_change_def)

theorem image_change_no_file_witness:
  "image_change [] demo_page = demo_page"
  using image_change_no_file [of demo_page] by simp

text \<open>
  Claim C5. A change event with at least one file stores the first file as the current
  selection; when the page has the preview region, the region then holds exactly one
  image whose source is an object URL registered for that file; when the page has the
  submit button, the button is enabled; the first image or paragraph of the result area
  is removed, so that a result area holding at most one result holds none afterwards
  while its other children stay; when the page has the message area, its text is empty;
  no request is issued and no submission is started.
\<close>

theorem selection_effects:
  assumes "s' = image_change (f # fs) s"
  shows "selectedFile s' = Some f
       \<and> (originalImagePreview s \<noteq> None \<longrightarrow>
            originalImagePreview s' =
              Some [ImgNode \<lparr>src = ObjectUrl (next_url s), alt = [],
                              onload = Some RevokeOwnSrc\<rparr>]
            \<and> map_of (object_urls s') (next_url s) = Some f)
       \<and> (submitBtn s \<noteq> None \<longrightarrow> submitBtn s' = Some False)
       \<and> generatedImageContainer s' =
            map_option remove_first_result (generatedImageContainer s)
       \<and> results s' = tl (results s)
       \<and> (length (results s) \<le> 1 \<longrightarrow> results s' = [])
       \<and> (errorMessage s \<noteq> None \<longrightarrow> errorMessage s' = Some [])
       \<and> requests s' = requests s
       \<and> phase s' = phase s"
  unfolding assms
  by (auto simp: image_change_file results_image_change tl_short)

theorem selection_effects_witness:
  "length (results stale_page) \<le> 1
   \<and> selectedFile (image_change [demo_file] stale_page) = Some demo_file
   \<and> originalImagePreview (image_change [demo_file] stale_page) =
        Some [ImgNode \<lparr>src = ObjectUrl 0, alt = [], onload = Some RevokeOwnSrc\<rparr>]
   \<and> map_of (object_urls (image_change [demo_file] stale_page)) 0 = Some demo_file
   \<and> submitBtn (image_change [demo_file] stale_page) = Some False
   \<and> generatedImageContainer (image_change [demo_file] stale_page) = Some [OtherNode]
   \<and> results (image_change [demo_file] stale_page) = []
   \<and> errorMessage (image_change [demo_file] stale_page) = Some []
   \<and> requests (image_change [demo_file] stale_page) = []"
  using selection_effects [OF refl, of demo_file "[]" stale_page]
  by (simp add: stale_page_def demo_page_def results_def)

text \<open>
  Claim C9. When a file selection creates a preview image, the image's source is a
  newly registered object URL, and the image's load handler revokes it: whenever the
  load event of that image is delivered, the URL is no longer registered afterwards.
\<close>

theorem preview_url_revoked:
  assumes "originalImagePreview s \<noteq> None"
      and "s' = image_change (f # fs) s"
  shows "\<exists>el. originalImagePreview s' = Some [ImgNode el]
            \<and> src el = ObjectUrl (next_url s)
            \<and> next_url s \<in> live_urls s'
            \<and> next_url s \<notin> live_urls (img_load el t)"
proof -
  let ?el = "\<lparr>src = ObjectUrl (next_url s), alt = [], onload = Some RevokeOwnSrc\<rparr>"
  have "originalImagePreview s' = Some [ImgNode ?el]"
    using assms by (auto simp: image_change_file)
  moreover have "next_url s \<in> live_urls s'"
    using assms by (auto simp: image_change_file live_urls_def)
  moreover have "next_url s \<notin> live_urls (img_load ?el t)"
    by (auto simp: img_load_def live_urls_def)
  ultimately show ?thesis by simp
qed

theorem preview_url_revoked_witness:
  "originalImagePreview demo_page \<noteq> None
   \<and> (\<exists>el. originalImagePreview (image_change [demo_file] demo_page) = Some [ImgNode el]
          \<and> src el = ObjectUrl 0
          \<and> 0 \<in> live_urls (image_change [demo_file] demo_page)
          \<and> 0 \<notin> live_urls (img_load el (image_change [demo_file] demo_page)))"
proof -
  have h: "originalImagePreview demo_page \<noteq> None"
    by (simp add: demo_page_def)
  have n: "next_url demo_page = 0"
    by (simp add: demo_page_def)
  show ?thesis
    using preview_url_revoked [OF h refl, of demo_file "[]" "image_change [demo_file] demo_page"] h
    unfolding n by simp
qed

section \<open>Properties of the submission handler\<close>

text \<open>
  Claim C3. Invoked with no file selected, the handler shows the "no file selected"
  message (in the message area when the page has one, and on the console) and returns:
  no request is issued, the handler is not suspended anywhere, and the loader, the two
  controls, the result area, the preview and the selection are untouched.
\<close>

theorem submit_click_no_file:
  assumes "selectedFile s = None"
  shows "errorMessage (submit_click s) = map_option (\<lambda>_. no_file_message) (errorMessage s)
       \<and> console (submit_click s) = console s @ [no_file_message]
       \<and> requests (submit_click s) = requests s
       \<and> phase (submit_click s) = phase s
       \<and> loader (submit_click s) = loader s
       \<and> submitBtn (submit_click s) = submitBtn s
       \<and> imageUpload (submit_click s) = imageUpload s
       \<and> generatedImageContainer (submit_click s) = generatedImageContainer s
       \<and> originalImagePreview (submit_click s) = originalImagePreview s
       \<and> selectedFile (submit_click s) = None"
  using assms by (simp add: submit_click_def)

theorem submit_click_no_file_witness:
  "selectedFile demo_page = None
   \<and> errorMessage (submit_click demo_page) = Some no_file_message
   \<and> requests (submit_click demo_page) = []
   \<and> phase (submit_click demo_page) = Idle
   \<and> loader (submit_click demo_page) = Some True
   \<and> submitBtn (submit_click demo_page) = Some True
   \<and> generatedImageContainer (submit_click demo_page) = Some [OtherNode]"
  using submit_click_no_file [of demo_page] by (simp add: demo_page_def)

text \<open>
  Claim C1. When the parts of the response's first candidate contain a part with
  inline data, the continuation that receives the response appends to the result area
  one image element, whose source is \<open>data:\<close>, the media type, \<open>;base64,\<close> and the
  data of the first such part, and nothing else. Over the whole handler the result area
  is its former content without the first former result, followed by that image; when
  it held at most one result before, the image is the only result afterwards.
\<close>

theorem image_part_rendered:
  assumes "find (\<lambda>p. inlineData p \<noteq> None) (response_parts r) = Some ip"
      and "inlineData ip = Some d"
      and "selectedFile s = Some f"
      and "generatedImageContainer s = Some ns"
      and "img = ImgNode \<lparr>src = Literal (''data:'' @ mimeType d @ '';base64,'' @ blob_data d),
                            alt = generated_alt, onload = None\<rparr>"
  shows "generatedImageContainer (response_settled (ApiResolved r) t) =
           map_option (\<lambda>ms. ms @ [img]) (generatedImageContainer t)
       \<and> generatedImageContainer (submit_handler (ReadLoaded res) (ApiResolved r) s) =
           Some (remove_first_result ns @ [img])
       \<and> (length (results s) \<le> 1 \<longrightarrow>
            results (submit_handler (ReadLoaded res) (ApiResolved r) s) = [img])"
proof -
  have step: "generatedImageContainer (response_settled (ApiResolved r) u) =
           map_option (\<lambda>ms. ms @ [img]) (generatedImageContainer u)" for u
    by (simp add: response_settled_image [OF assms(1,2)] assms(5) split: option.splits)
  let ?s1 = "submit_click s"
  have sel1: "selectedFile ?s1 = Some f"
    using assms(3) by (simp add: selectedFile_submit_click)
  have c1: "generatedImageContainer ?s1 = Some (remove_first_result ns)"
    using assms(4) by (simp add: submit_click_selected [OF assms(3)])
  have c2: "generatedImageContainer (read_settled (ReadLoaded res) ?s1) =
              Some (remove_first_result ns)"
    using c1 by (simp add: read_settled_loaded [OF sel1])
  have whole: "generatedImageContainer (submit_handler (ReadLoaded res) (ApiResolved r) s) =
           Some (remove_first_result ns @ [img])"
    by (simp add: submit_handler_unfold [OF assms(3)] step c2)
  have "results (submit_handler (ReadLoaded res) (ApiResolved r) s) = tl (results s) @ [img]"
    using assms(4,5) by (simp add: results_def whole results_remove_first)
  then have "length (results s) \<le> 1 \<longrightarrow>
            results (submit_handler (ReadLoaded res) (ApiResolved r) s) = [img]"
    by (simp add: tl_short)
  with step whole show ?thesis by blast
qed

theorem image_part_rendered_witness:
  "find (\<lambda>p. inlineData p \<noteq> None) (response_parts image_response)
     = Some \<lparr>inlineData = Some demo_blob, part_text = None\<rparr>
   \<and> selectedFile (image_change [demo_file] demo_page) = Some demo_file
   \<and> generatedImageContainer
        (submit_handler demo_read (ApiResolved image_response)
           (image_change [demo_file] demo_page))
     = Some [OtherNode,
             ImgNode \<lparr>src = Literal ''data:image/png;base64,QUJD'',
                       alt = generated_alt, onload = None\<rparr>]
   \<and> results
        (submit_handler demo_read (ApiResolved image_response)
           (image_change [demo_file] demo_page))
     = [ImgNode \<lparr>src = Literal ''data:image/png;base64,QUJD'',
                  alt = generated_alt, onload = None\<rparr>]"
proof -
  have found: "find (\<lambda>p. inlineData p \<noteq> None) (response_parts image_response)
     = Some \<lparr>inlineData = Some demo_blob, part_text = None\<rparr>"
    by (simp add: image_response_def demo_parts)
  have data: "inlineData \<lparr>inlineData = Some demo_blob, part_text = None\<rparr> = Some demo_blob"
    by simp
  show ?thesis
    using image_part_rendered [OF found data demo_selected(1,2) refl,
        where res = "''data:image/png;base64,iVBO''" and t = demo_page] found
    by (simp add: demo_selected demo_blob_def demo_read_def)
qed

text \<open>
  Claim C2, as the specification states it: without an image part, the error
  paragraph shows the text of the first text part whenever a text part exists. A
  response whose only part is a text part with the empty text has no image part and
  has a text part, yet the paragraph shows the default message, which is not that
  part's (empty) text.
\<close>

theorem empty_text_part_counterexample:
  "response_parts empty_text_response = [\<lparr>inlineData = None, part_text = Some []\<rparr>]
   \<and> generatedImageContainer
        (submit_handler demo_read (ApiResolved empty_text_response)
           (image_change [demo_file] demo_page))
     = Some [OtherNode, PNode ''error-in-box'' defaultError]
   \<and> defaultError \<noteq> []"
proof -
  have ps: "response_parts empty_text_response = [\<lparr>inlineData = None, part_text = Some []\<rparr>]"
    by (simp add: empty_text_response_def demo_parts)
  have sel1: "selectedFile (submit_click (image_change [demo_file] demo_page)) = Some demo_file"
    by (simp add: selectedFile_submit_click demo_selected)
  have "generatedImageContainer
        (submit_handler demo_read (ApiResolved empty_text_response)
           (image_change [demo_file] demo_page))
     = Some [OtherNode, PNode ''error-in-box'' defaultError]"
    using defaultError_nonempty
    by (simp add: demo_read_def submit_handler_unfold [OF demo_selected(1)]
          response_settled_no_image ps read_settled_loaded [OF sel1]
          submit_click_selected [OF demo_selected(1)] demo_selected)
  with ps defaultError_nonempty show ?thesis by simp
qed

text \<open>
  Claim C2, amended. When the parts of the response's first candidate contain no part
  with inline data, the handler leaves exactly one new element in the result area, an
  error paragraph: its text is the text of the first part whose text is not empty when
  there is such a part, and the default message when there is none (in particular when
  the response has neither an image part nor a text part). When the result area held
  at most one result before, that paragraph is the only result afterwards.
\<close>

theorem no_image_part_error:
  assumes "find (\<lambda>p. inlineData p \<noteq> None) (response_parts r) = None"
      and "selectedFile s = Some f"
      and "generatedImageContainer s = Some ns"
      and "final = submit_handler (ReadLoaded res) (ApiResolved r) s"
  shows "(find (\<lambda>p. truthy (part_text p)) (response_parts r) = Some tp
            \<and> part_text tp = Some body \<longrightarrow>
          generatedImageContainer final
            = Some (remove_first_result ns @ [PNode ''error-in-box'' body])
          \<and> (length (results s) \<le> 1 \<longrightarrow> results final = [PNode ''error-in-box'' body]))
       \<and> (find (\<lambda>p. truthy (part_text p)) (response_parts r) = None \<longrightarrow>
          generatedImageContainer final
            = Some (remove_first_result ns @ [PNode ''error-in-box'' defaultError])
          \<and> (length (results s) \<le> 1 \<longrightarrow>
               results final = [PNode ''error-in-box'' defaultError]))"
proof -
  define msg where "msg = js_or (case find (\<lambda>p. truthy (part_text p)) (response_parts r) of
                                    None \<Rightarrow> None | Some p \<Rightarrow> part_text p) defaultError"
  let ?s1 = "submit_click s"
  have sel1: "selectedFile ?s1 = Some f"
    using assms(2) by (simp add: selectedFile_submit_click)
  have c1: "generatedImageContainer ?s1 = Some (remove_first_result ns)"
    using assms(3) by (simp add: submit_click_selected [OF assms(2)])
  have msg_ne: "msg \<noteq> []"
    unfolding msg_def by (rule js_or_nonempty [OF defaultError_nonempty])
  have whole: "generatedImageContainer final
                 = Some (remove_first_result ns @ [PNode ''error-in-box'' msg])"
    using c1 msg_ne
    by (simp add: assms(4) submit_handler_unfold [OF assms(2)]
          response_settled_no_image [OF assms(1)] read_settled_loaded [OF sel1] msg_def)
  have res: "results final = tl (results s) @ [PNode ''error-in-box'' msg]"
    using assms(3) by (simp add: results_def whole results_remove_first)
  have short: "length (results s) \<le> 1 \<longrightarrow> results final = [PNode ''error-in-box'' msg]"
    by (simp add: res tl_short)
  have m1: "msg = body"
    if "find (\<lambda>p. truthy (part_text p)) (response_parts r) = Some tp" "part_text tp = Some body"
  proof -
    have "truthy (part_text tp)"
      using that(1) by (auto simp: find_Some_iff)
    then show ?thesis
      using that by (simp add: msg_def)
  qed
  have m2: "msg = defaultError"
    if "find (\<lambda>p. truthy (part_text p)) (response_parts r) = None"
    using that defaultError_nonempty by (simp add: msg_def)
  show ?thesis
    using whole short m1 m2 by auto
qed

theorem no_image_part_error_witness:
  "find (\<lambda>p. inlineData p \<noteq> None) (response_parts text_response) = None
   \<and> find (\<lambda>p. truthy (part_text p)) (response_parts text_response)
       = Some \<lparr>inlineData = None, part_text = Some ''blocked by safety filters''\<rparr>
   \<and> length (results (image_change [demo_file] demo_page)) \<le> 1
   \<and> generatedImageContainer
        (submit_handler demo_read (ApiResolved text_response)
           (image_change [demo_file] demo_page))
       = Some [OtherNode, PNode ''error-in-box'' ''blocked by safety filters'']
   \<and> results
        (submit_handler demo_read (ApiResolved text_response)
           (image_change [demo_file] demo_page))
       = [PNode ''error-in-box'' ''blocked by safety filters'']"
proof -
  have noimg: "find (\<lambda>p. inlineData p \<noteq> None) (response_parts text_response) = None"
    by (simp add: text_response_def demo_parts)
  have body: "find (\<lambda>p. truthy (part_text p)) (response_parts text_response)
       = Some \<lparr>inlineData = None, part_text = Some ''blocked by safety filters''\<rparr>"
    by (simp add: text_response_def demo_parts)
  show ?thesis
    using no_image_part_error [OF noimg demo_selected(1,2) refl,
        where tp = "\<lparr>inlineData = None, part_text = Some ''blocked by safety filters''\<rparr>"
          and body = "''blocked by safety filters''"
          and res = "''data:image/png;base64,iVBO''"]
      noimg body
    by (simp add: demo_selected demo_read_def)
qed




section \<open>Properties of the loading state\<close>

text \<open>
  Claim C4. Take a page that has the file input, the submit button and the loader, with
  a file selected. The click disables both controls and shows the loader. In every
  state reached afterwards in which the handler is still suspended, both controls are
  disabled and the loader is shown, and only the settling of the read or of the service
  call can end the suspension; the step that ends it leaves both controls enabled and
  the loader hidden. Whatever the outcomes of the read and of the service call
  (success, failed read, rejected call, response without image), the handler completes
  with both controls enabled and the loader hidden. Step by step: the settling of the
  read can be delivered right after the click; a failed read by itself ends the
  handler, with both controls enabled and the loader hidden; a successful read leaves
  the handler suspended on the service call, with both controls still disabled and the
  loader shown; any outcome of the service call then ends the handler, with both
  controls enabled and the loader hidden. A whole run of the handler is exactly these
  steps.
\<close>

theorem loading_lifecycle:
  assumes "selectedFile s = Some f"
      and "imageUpload s \<noteq> None"
      and "submitBtn s \<noteq> None"
      and "loader s \<noteq> None"
  shows "imageUpload (submit_click s) = Some True
       \<and> submitBtn (submit_click s) = Some True
       \<and> loader (submit_click s) = Some False
       \<and> phase (submit_click s) = AwaitRead
       \<and> (run (submit_click s) evs = Some t \<and> phase t \<noteq> Idle \<longrightarrow>
            imageUpload t = Some True \<and> submitBtn t = Some True \<and> loader t = Some False
            \<and> (enabled e t \<and> phase (fire e t) = Idle \<longrightarrow>
                 ((\<exists>ro. e = ReadSettled ro) \<or> (\<exists>ao. e = ResponseSettled ao))
                 \<and> imageUpload (fire e t) = Some False
                 \<and> submitBtn (fire e t) = Some False
                 \<and> loader (fire e t) = Some True))
       \<and> phase (submit_handler ro ao s) = Idle
       \<and> imageUpload (submit_handler ro ao s) = Some False
       \<and> submitBtn (submit_handler ro ao s) = Some False
       \<and> loader (submit_handler ro ao s) = Some True
       \<and> enabled (ReadSettled ro) (submit_click s)
       \<and> phase (fire (ReadSettled (ReadErrored err)) (submit_click s)) = Idle
       \<and> imageUpload (fire (ReadSettled (ReadErrored err)) (submit_click s)) = Some False
       \<and> submitBtn (fire (ReadSettled (ReadErrored err)) (submit_click s)) = Some False
       \<and> loader (fire (ReadSettled (ReadErrored err)) (submit_click s)) = Some True
       \<and> phase (fire (ReadSettled (ReadLoaded rd)) (submit_click s)) = AwaitResponse
       \<and> imageUpload (fire (ReadSettled (ReadLoaded rd)) (submit_click s)) = Some True
       \<and> submitBtn (fire (ReadSettled (ReadLoaded rd)) (submit_click s)) = Some True
       \<and> loader (fire (ReadSettled (ReadLoaded rd)) (submit_click s)) = Some False
       \<and> phase (fire (ResponseSettled ao)
                   (fire (ReadSettled (ReadLoaded rd)) (submit_click s))) = Idle
       \<and> imageUpload (fire (ResponseSettled ao)
                         (fire (ReadSettled (ReadLoaded rd)) (submit_click s))) = Some False
       \<and> submitBtn (fire (ResponseSettled ao)
                       (fire (ReadSettled (ReadLoaded rd)) (submit_click s))) = Some False
       \<and> loader (fire (ResponseSettled ao)
                    (fire (ReadSettled (ReadLoaded rd)) (submit_click s))) = Some True
       \<and> submit_handler (ReadErrored err) ao s
           = fire (ReadSettled (ReadErrored err)) (fire Click s)
       \<and> submit_handler (ReadLoaded rd) ao s
           = fire (ResponseSettled ao) (fire (ReadSettled (ReadLoaded rd)) (fire Click s))"
proof -
  have start: "imageUpload (submit_click s) = Some True
       \<and> submitBtn (submit_click s) = Some True
       \<and> loader (submit_click s) = Some False
       \<and> phase (submit_click s) = AwaitRead"
    using assms(2-4) by (auto simp: submit_click_selected [OF assms(1)])
  then have inv1: "loading_inv (submit_click s)"
    by (simp add: loading_inv_def)
  have later: "imageUpload t = Some True \<and> submitBtn t = Some True \<and> loader t = Some False
            \<and> (enabled e t \<and> phase (fire e t) = Idle \<longrightarrow>
                 ((\<exists>ro. e = ReadSettled ro) \<or> (\<exists>ao. e = ResponseSettled ao))
                 \<and> imageUpload (fire e t) = Some False
                 \<and> submitBtn (fire e t) = Some False
                 \<and> loader (fire e t) = Some True)"
    if r: "run (submit_click s) evs = Some t" and busy: "phase t \<noteq> Idle"
  proof -
    have invt: "loading_inv t"
      using inv1 r by (rule loading_inv_run)
    then have "imageUpload t = Some True \<and> submitBtn t = Some True \<and> loader t = Some False"
      using busy by (simp add: loading_inv_def)
    moreover have "((\<exists>ro. e = ReadSettled ro) \<or> (\<exists>ao. e = ResponseSettled ao))
                 \<and> imageUpload (fire e t) = Some False
                 \<and> submitBtn (fire e t) = Some False
                 \<and> loader (fire e t) = Some True"
      if "enabled e t" "phase (fire e t) = Idle"
      using suspension_ends [OF invt busy that] .
    ultimately show ?thesis by blast
  qed
  have whole: "phase (submit_handler ro ao s) = Idle
       \<and> imageUpload (submit_handler ro ao s) = Some False
       \<and> submitBtn (submit_handler ro ao s) = Some False
       \<and> loader (submit_handler ro ao s) = Some True"
    using assms(2-4) by (auto simp: submit_handler_controls [OF assms(1)])
  have sel1: "selectedFile (submit_click s) = Some f"
    using assms(1) by (simp add: selectedFile_submit_click)
  have deliverable: "enabled (ReadSettled ro) (submit_click s)"
    using start by simp
  have failed_read: "phase (fire (ReadSettled (ReadErrored err)) (submit_click s)) = Idle
       \<and> imageUpload (fire (ReadSettled (ReadErrored err)) (submit_click s)) = Some False
       \<and> submitBtn (fire (ReadSettled (ReadErrored err)) (submit_click s)) = Some False
       \<and> loader (fire (ReadSettled (ReadErrored err)) (submit_click s)) = Some True"
    using start by (simp add: read_settled_errored)
  have sent: "phase (fire (ReadSettled (ReadLoaded rd)) (submit_click s)) = AwaitResponse
       \<and> imageUpload (fire (ReadSettled (ReadLoaded rd)) (submit_click s)) = Some True
       \<and> submitBtn (fire (ReadSettled (ReadLoaded rd)) (submit_click s)) = Some True
       \<and> loader (fire (ReadSettled (ReadLoaded rd)) (submit_click s)) = Some False"
    using start by (simp add: read_settled_loaded [OF sel1])
  have answered: "phase (fire (ResponseSettled ao)
                   (fire (ReadSettled (ReadLoaded rd)) (submit_click s))) = Idle
       \<and> imageUpload (fire (ResponseSettled ao)
                         (fire (ReadSettled (ReadLoaded rd)) (submit_click s))) = Some False
       \<and> submitBtn (fire (ResponseSettled ao)
                       (fire (ReadSettled (ReadLoaded rd)) (submit_click s))) = Some False
       \<and> loader (fire (ResponseSettled ao)
                    (fire (ReadSettled (ReadLoaded rd)) (submit_click s))) = Some True"
    using sent by (simp add: response_settled_controls)
  have steps: "submit_handler (ReadErrored err) ao s
           = fire (ReadSettled (ReadErrored err)) (fire Click s)
       \<and> submit_handler (ReadLoaded rd) ao s
           = fire (ResponseSettled ao) (fire (ReadSettled (ReadLoaded rd)) (fire Click s))"
    by (simp add: submit_handler_unfold [OF assms(1)] read_settled_errored)
  show ?thesis
    using start later whole deliverable failed_read sent answered steps by blast
qed

theorem loading_lifecycle_witness:
  "selectedFile stale_page = Some demo_file
   \<and> imageUpload stale_page \<noteq> None \<and> submitBtn stale_page \<noteq> None \<and> loader stale_page \<noteq> None
   \<and> submitBtn (submit_click stale_page) = Some True
   \<and> imageUpload (submit_click stale_page) = Some True
   \<and> run (submit_click stale_page) [ReadSettled demo_read]
       = Some (read_settled demo_read (submit_click stale_page))
   \<and> phase (read_settled demo_read (submit_click stale_page)) \<noteq> Idle
   \<and> submitBtn (read_settled demo_read (submit_click stale_page)) = Some True
   \<and> imageUpload (read_settled demo_read (submit_click stale_page)) = Some True
   \<and> loader (read_settled demo_read (submit_click stale_page)) = Some False
   \<and> enabled (ResponseSettled (ApiRejected (ErrorObject ''Failed to fetch'')))
        (read_settled demo_read (submit_click stale_page))
   \<and> phase (fire (ResponseSettled (ApiRejected (ErrorObject ''Failed to fetch'')))
               (read_settled demo_read (submit_click stale_page))) = Idle
   \<and> submitBtn (fire (ResponseSettled (ApiRejected (ErrorObject ''Failed to fetch'')))
                   (read_settled demo_read (submit_click stale_page))) = Some False
   \<and> loader (submit_handler (ReadErrored (ReaderErrorEvent ''NotReadableError''))
                (ApiResolved text_response) stale_page) = Some True
   \<and> submitBtn (submit_handler (ReadErrored (ReaderErrorEvent ''NotReadableError''))
                   (ApiResolved text_response) stale_page) = Some False
   \<and> imageUpload (submit_handler (ReadErrored (ReaderErrorEvent ''NotReadableError''))
                     (ApiResolved text_response) stale_page) = Some False
   \<and> enabled (ReadSettled (ReadErrored (ReaderErrorEvent ''NotReadableError'')))
        (submit_click stale_page)
   \<and> phase (fire (ReadSettled (ReadErrored (ReaderErrorEvent ''NotReadableError'')))
               (submit_click stale_page)) = Idle
   \<and> imageUpload (fire (ReadSettled (ReadErrored (ReaderErrorEvent ''NotReadableError'')))
                     (submit_click stale_page)) = Some False
   \<and> submitBtn (fire (ReadSettled (ReadErrored (ReaderErrorEvent ''NotReadableError'')))
                   (submit_click stale_page)) = Some False
   \<and> loader (fire (ReadSettled (ReadErrored (ReaderErrorEvent ''NotReadableError'')))
                (submit_click stale_page)) = Some True
   \<and> phase (fire (ResponseSettled (ApiResolved text_response))
               (fire (ReadSettled (ReadLoaded ''data:image/png;base64,iVBO''))
                  (submit_click stale_page))) = Idle
   \<and> submitBtn (fire (ResponseSettled (ApiResolved text_response))
                   (fire (ReadSettled (ReadLoaded ''data:image/png;base64,iVBO''))
                      (submit_click stale_page))) = Some False"
proof -
  have h1: "selectedFile stale_page = Some demo_file"
    by (simp add: stale_page_def)
  have h2: "imageUpload stale_page \<noteq> None" "submitBtn stale_page \<noteq> None"
    "loader stale_page \<noteq> None"
    by (simp_all add: stale_page_def demo_page_def)
  have sel1: "selectedFile (submit_click stale_page) = Some demo_file"
    by (simp add: selectedFile_submit_click h1)
  have ph1: "phase (submit_click stale_page) = AwaitRead"
    by (rule submit_click_selected [OF h1])
  have ph2: "phase (read_settled demo_read (submit_click stale_page)) = AwaitResponse"
    by (simp add: demo_read_def read_settled_loaded [OF sel1])
  have r: "run (submit_click stale_page) [ReadSettled demo_read]
       = Some (read_settled demo_read (submit_click stale_page))"
    using ph1 by simp
  have en: "enabled (ResponseSettled (ApiRejected (ErrorObject ''Failed to fetch'')))
        (read_settled demo_read (submit_click stale_page))"
    using ph2 by simp
  have fin: "phase (fire (ResponseSettled (ApiRejected (ErrorObject ''Failed to fetch'')))
               (read_settled demo_read (submit_click stale_page))) = Idle"
    by (simp add: response_settled_controls)
  show ?thesis
    using loading_lifecycle [OF h1 h2,
        where evs = "[ReadSettled demo_read]"
          and t = "read_settled demo_read (submit_click stale_page)"
          and e = "ResponseSettled (ApiRejected (ErrorObject ''Failed to fetch''))"
          and ro = "ReadErrored (ReaderErrorEvent ''NotReadableError'')"
          and ao = "ApiResolved text_response"
          and err = "ReaderErrorEvent ''NotReadableError''"
          and rd = "''data:image/png;base64,iVBO''"]
      h1 h2 r ph2 en fin
    by simp
qed

section \<open>Properties of the result area\<close>

text \<open>
  Claim C6. Start from a page on which no submission is under way and whose result
  area holds at most one image or paragraph. After any sequence of events the page can
  receive (file selections and clicks on enabled controls, the settling of the read and
  of the service call, image load events), the result area holds nothing, or exactly
  one image, or exactly one paragraph.
\<close>

theorem result_area_exclusive:
  assumes "phase s0 = Idle"
      and "length (results s0) \<le> 1"
      and "run s0 evs = Some s"
  shows "results s = [] \<or> (\<exists>el. results s = [ImgNode el]) \<or> (\<exists>c m. results s = [PNode c m])"
proof -
  have "suspended_inv s0"
    using assms(1,2) by (simp add: suspended_inv_def)
  then have "suspended_inv s"
    using assms(3) by (rule suspended_inv_run)
  then have "length (results s) \<le> 1"
    by (simp add: suspended_inv_def)
  then show ?thesis by (rule single_result)
qed

theorem result_area_exclusive_witness:
  "phase demo_page = Idle
   \<and> length (results demo_page) \<le> 1
   \<and> run demo_page demo_events =
       Some (submit_handler demo_read (ApiResolved image_response)
               (image_change [demo_file] demo_page))
   \<and> (results (submit_handler demo_read (ApiResolved image_response)
                  (image_change [demo_file] demo_page)) = []
      \<or> (\<exists>el. results (submit_handler demo_read (ApiResolved image_response)
                         (image_change [demo_file] demo_page)) = [ImgNode el])
      \<or> (\<exists>c m. results (submit_handler demo_read (ApiResolved image_response)
                          (image_change [demo_file] demo_page)) = [PNode c m]))"
proof -
  have h1: "phase demo_page = Idle"
    by (simp add: demo_page_def)
  have h2: "length (results demo_page) \<le> 1"
    by (simp add: results_def demo_page_def)
  show ?thesis
    using result_area_exclusive [OF h1 h2 demo_run] h1 h2 demo_run by simp
qed

end
